theory Spec2Isabelle
  imports Complex_Main "HOL-Library.Multiset"
begin

section \<open>The Bayesian GPLVM notebook\<close>

text \<open>
  The repository's source is the notebook \<^verbatim>\<open>doc/source/notebooks/basics/GPLVM.ipynb\<close>: a
  linear sequence of cells that load the data, build the initial values, construct the
  model, run the optimizer and plot. Each cell is embedded as a HOL definition with the
  cell's variable name. Tensors of shape \<^verbatim>\<open>[rows, columns]\<close> are lists of rows. What the
  notebook calls in NumPy, SciPy and the GPflow library is not part of the notebook; it is
  a parameter of the definitions below (the record \<open>library\<close>, the order \<open>p\<close> drawn by
  the random generator). The parts of the library that the definitions below have to
  spell out, the model object with its parameters and transforms, what the optimizer's
  call leaves in the model, the Kullback-Leibler term and the kernel, are modelled
  from the spec, each marked where it is defined.
\<close>

type_synonym matrix = "real list list"

subsection \<open>Cells 6 to 8: sizes and initial values\<close>

text \<open>\<^verbatim>\<open>latent_dim = 2\<close>, \<^verbatim>\<open>num_inducing = 20\<close>, \<^verbatim>\<open>num_data = Y.shape[0]\<close>.\<close>

definition latent_dim :: nat where
  "latent_dim = 2"

definition num_inducing :: nat where
  "num_inducing = 20"

definition num_data :: "matrix \<Rightarrow> nat" where
  "num_data Y = length Y"

text \<open>\<^verbatim>\<open>x_var_init = np.ones((num_data, latent_dim))\<close>.\<close>

definition x_var_init :: "matrix \<Rightarrow> matrix" where
  "x_var_init Y = replicate (num_data Y) (replicate latent_dim 1)"

text \<open>
  \<^verbatim>\<open>np.random.permutation(x)\<close> on a two-dimensional array returns a copy of \<open>x\<close> with its
  rows reordered. The order is drawn by NumPy's generator: \<open>p\<close> lists, for each row of the
  result, the index of the row of \<open>x\<close> that it copies. NumPy draws a permutation of the
  row indices, which is the predicate \<open>row_order\<close>.
\<close>

definition row_order :: "nat list \<Rightarrow> nat \<Rightarrow> bool" where
  "row_order p n = (distinct p \<and> set p = {0..<n})"

definition permutation :: "nat list \<Rightarrow> 'a list \<Rightarrow> 'a list" where
  "permutation p x = map (\<lambda>i. x ! i) p"

text \<open>
  \<^verbatim>\<open>inducing_variable = np.random.permutation(x_mean_init.numpy())[:num_inducing]\<close>.
  A Python slice \<^verbatim>\<open>[:k]\<close> keeps the first \<open>k\<close> rows, or all of them when there are fewer.
\<close>

definition inducing_variable :: "nat list \<Rightarrow> matrix \<Rightarrow> matrix" where
  "inducing_variable p x_mean_init = take num_inducing (permutation p x_mean_init)"

subsection \<open>Cell 18: the parameters of the model\<close>

text \<open>
  \<^verbatim>\<open>print_summary(gplvm)\<close> prints one row for each parameter of the model, with its
  transform and whether it is trainable. The output stored in the notebook has six rows:
  \<^verbatim>\<open>kernel.variance\<close>, \<^verbatim>\<open>kernel.lengthscale\<close>, \<^verbatim>\<open>likelihood.variance\<close>,
  \<^verbatim>\<open>x_data_mean\<close>, \<^verbatim>\<open>x_data_var\<close> and \<^verbatim>\<open>inducing_variable.Z\<close>. The column
  \<^verbatim>\<open>transform\<close> reads \<^verbatim>\<open>Softplus\<close> in four rows and is empty in the rows of
  \<^verbatim>\<open>x_data_mean\<close> and \<^verbatim>\<open>inducing_variable.Z\<close>; the column \<^verbatim>\<open>trainable\<close> reads
  \<^verbatim>\<open>True\<close> in every row.
\<close>

datatype parameter =
  Kernel_variance | Kernel_lengthscale | Likelihood_variance
  | X_data_mean | X_data_var | Inducing_variable_Z

datatype transform = Softplus

fun transform_of :: "parameter \<Rightarrow> transform option" where
  "transform_of Kernel_variance = Some Softplus"
| "transform_of Kernel_lengthscale = Some Softplus"
| "transform_of Likelihood_variance = Some Softplus"
| "transform_of X_data_mean = None"
| "transform_of X_data_var = Some Softplus"
| "transform_of Inducing_variable_Z = None"

subsection \<open>The transform layer\<close>

text \<open>
  Modelled from the spec: the body of the Softplus transform is not in the notebook. The
  spec (sections 2 and 4.6) describes a bidirectional mapping between the unconstrained
  value that the optimizer manipulates and the constrained value that the model reads,
  the softplus transform enforcing positivity. Softplus is \<open>ln (1 + exp x)\<close>; its inverse
  on the positive reals is \<open>ln (exp y - 1)\<close>. Values are real numbers: the rounding of
  64-bit floating point is not modelled. In particular the real softplus is strictly
  positive everywhere, while a 64-bit evaluation rounds it to zero at very negative
  arguments, so its positivity is a fact about the real function and is not stated of
  the values that the program computes. At a value that is not positive the inverse is
  not a real number, and HOL's \<open>ln\<close> returns some real; the notebook stores the
  library's default variance and the positive values 1.0, 0.01 and ones, and no
  property below depends on the inverse of a value that is not positive.
\<close>

definition softplus :: "real \<Rightarrow> real" where
  "softplus x = ln (1 + exp x)"

definition softplus_inverse :: "real \<Rightarrow> real" where
  "softplus_inverse y = ln (exp y - 1)"

fun forward :: "transform option \<Rightarrow> real \<Rightarrow> real" where
  "forward None x = x"
| "forward (Some Softplus) x = softplus x"

fun backward :: "transform option \<Rightarrow> real \<Rightarrow> real" where
  "backward None y = y"
| "backward (Some Softplus) y = softplus_inverse y"

subsection \<open>Cells 9 to 11: kernel and model\<close>

text \<open>
  Modelled from the spec: the library's model and parameter classes are not in the
  notebook. The spec (sections 3 and 4.6) describes the model's entities, the observation
  matrix and the parameters created at construction, and a transform layer between the
  unconstrained value that the optimizer manipulates and the constrained value that the
  model needs. The model object keeps the observations it was given and one variable for
  each parameter of the table. A variable holds the unconstrained value; the parameter's
  value is read through the forward transform. Scalars of shape \<^verbatim>\<open>()\<close> are kept as a 1 by 1 matrix and vectors of
  shape \<^verbatim>\<open>(k,)\<close> as a single row.
\<close>

type_synonym variables = "parameter \<Rightarrow> matrix"

record gplvm =
  data :: matrix
  unconstrained :: variables

definition Parameter :: "parameter \<Rightarrow> matrix \<Rightarrow> matrix" where
  "Parameter q v = map (map (backward (transform_of q))) v"

definition read_value :: "gplvm \<Rightarrow> parameter \<Rightarrow> matrix" where
  "read_value m q = map (map (forward (transform_of q))) (unconstrained m q)"

text \<open>
  Modelled from the spec: \<^verbatim>\<open>gplvm.trainable_variables\<close> is the library's property. The
  spec (section 4.5) gives the optimizer the mutable list of all free parameters; they are
  the variables of the parameters that are trainable, which the table says of all six.
\<close>

definition trainable_variables :: "gplvm \<Rightarrow> variables" where
  "trainable_variables m = unconstrained m"

text \<open>
  Modelled from the spec: \<^verbatim>\<open>parameter.assign(value)\<close> is the library's method. By the
  transform layer of section 4.6 the value given is the constrained one, and the variable
  holds its image under the inverse transform.
\<close>

definition assign :: "gplvm \<Rightarrow> parameter \<Rightarrow> matrix \<Rightarrow> gplvm" where
  "assign m q v = m\<lparr>unconstrained := (unconstrained m)(q := Parameter q v)\<rparr>"

text \<open>
  \<^verbatim>\<open>lengthscale = [1.0] * latent_dim\<close> and \<^verbatim>\<open>kernel = gpflow.kernels.RBF(lengthscale=lengthscale)\<close>.
  The kernel's variance is not passed: it is the library's default, the parameter
  \<open>variance_default\<close>.
\<close>

record kernel =
  variance :: real
  lengthscale :: "real list"

definition lengthscale_init :: "real list" where
  "lengthscale_init = replicate latent_dim 1"

definition RBF :: "real \<Rightarrow> real list \<Rightarrow> kernel" where
  "RBF v ls = \<lparr>variance = v, lengthscale = ls\<rparr>"

text \<open>
  Modelled from the spec: the constructor
  \<^verbatim>\<open>gpflow.models.BayesianGPLVM(Y, x_data_mean=..., x_data_var=..., kernel=..., inducing_variable=...)\<close>
  is the library's. By section 3 of the spec the observation matrix and the parameters
  are created at model construction, here from the values that the notebook passes. The
  likelihood variance starts at the default 1, as the notebook says before cell 11.
\<close>

definition BayesianGPLVM :: "matrix \<Rightarrow> matrix \<Rightarrow> matrix \<Rightarrow> kernel \<Rightarrow> matrix \<Rightarrow> gplvm" where
  "BayesianGPLVM Y x_mean x_var k Z =
     \<lparr>data = Y,
      unconstrained = (\<lambda>q. Parameter q
        (case q of
           Kernel_variance \<Rightarrow> [[variance k]]
         | Kernel_lengthscale \<Rightarrow> [lengthscale k]
         | Likelihood_variance \<Rightarrow> [[1]]
         | X_data_mean \<Rightarrow> x_mean
         | X_data_var \<Rightarrow> x_var
         | Inducing_variable_Z \<Rightarrow> Z))\<rparr>"

subsection \<open>Cell 17: the objective and the optimizer\<close>

text \<open>
  The value of the bound is a 64-bit float: a finite number, an infinity, or not a
  number. Unary minus flips the sign and keeps not-a-number; a comparison with
  not-a-number is false.
\<close>

datatype scalar = Finite real | PosInf | NegInf | NaN

fun negative :: "scalar \<Rightarrow> scalar" where
  "negative (Finite x) = Finite (- x)"
| "negative PosInf = NegInf"
| "negative NegInf = PosInf"
| "negative NaN = NaN"

fun less_equal :: "scalar \<Rightarrow> scalar \<Rightarrow> bool" where
  "less_equal NaN b = False"
| "less_equal a NaN = False"
| "less_equal NegInf b = True"
| "less_equal a PosInf = True"
| "less_equal (Finite x) (Finite y) = (x \<le> y)"
| "less_equal a b = False"

text \<open>
  What the notebook calls in the library. \<open>pca_reduce\<close> is \<^verbatim>\<open>gpflow.utilities.ops.pca_reduce\<close>;
  \<open>log_marginal_likelihood\<close> is the model's method of that name, the evidence lower bound
  at the model's current parameter values; \<open>ci_niter\<close> is \<^verbatim>\<open>gpflow.ci_utils.ci_niter\<close>;
  \<open>minimize\<close> is \<^verbatim>\<open>gpflow.optimizers.Scipy().minimize\<close>, given the objective as a function
  of the variables, the method's name, the variables as they are before the call and the
  iteration budget: it returns the values that it assigns to the variables, iteration by
  iteration, the last of which they keep.
\<close>

record library =
  pca_reduce :: "matrix \<Rightarrow> nat \<Rightarrow> matrix"
  variance_default :: real
  log_marginal_likelihood :: "gplvm \<Rightarrow> scalar"
  ci_niter :: "nat \<Rightarrow> nat"
  minimize :: "(variables \<Rightarrow> scalar) \<Rightarrow> string \<Rightarrow> variables \<Rightarrow> nat \<Rightarrow> variables list"

text \<open>
  \<^verbatim>\<open>def optimization_step(): return - gplvm.log_marginal_likelihood()\<close>. The function
  takes no argument: it reads the global \<open>gplvm\<close>. \<open>objective\<close> is the same function
  of the values \<open>u\<close> that the variables of \<open>gplvm\<close> hold when it is called, which is how
  the optimizer, handed \<open>optimization_step\<close> and the variables, can evaluate it.
\<close>

definition optimization_step :: "library \<Rightarrow> gplvm \<Rightarrow> scalar" where
  "optimization_step lib m = negative (log_marginal_likelihood lib m)"

definition objective :: "library \<Rightarrow> gplvm \<Rightarrow> variables \<Rightarrow> scalar" where
  "objective lib m u = optimization_step lib (m\<lparr>unconstrained := u\<rparr>)"

subsection \<open>The notebook from loading to plotting\<close>

text \<open>
  \<^verbatim>\<open>data = np.load(...)\<close>, \<^verbatim>\<open>Y = data['Y']\<close>, \<^verbatim>\<open>labels = data['labels']\<close>.
\<close>

record npz =
  npz_Y :: matrix
  npz_labels :: "int list"

definition x_mean_init :: "library \<Rightarrow> matrix \<Rightarrow> matrix" where
  "x_mean_init lib Y = pca_reduce lib Y latent_dim"

definition gplvm_constructed :: "library \<Rightarrow> nat list \<Rightarrow> matrix \<Rightarrow> gplvm" where
  "gplvm_constructed lib p Y =
     assign
       (BayesianGPLVM Y (x_mean_init lib Y) (x_var_init Y)
          (RBF (variance_default lib) lengthscale_init)
          (inducing_variable p (x_mean_init lib Y)))
       Likelihood_variance [[1 / 100]]"

definition maxiter :: "library \<Rightarrow> nat" where
  "maxiter lib = ci_niter lib 1000"

definition iterations :: "library \<Rightarrow> gplvm \<Rightarrow> variables list" where
  "iterations lib m =
     minimize lib (objective lib m) ''bfgs'' (trainable_variables m) (maxiter lib)"

text \<open>
  Modelled from the spec: what the call of the optimizer leaves in the model is the
  library's doing. By sections 3 and 5 of the spec the parameters are mutated in place by
  every optimizer step, and by them alone; the model after the call holds the values
  assigned last, or those from before the call when the optimizer assigns none.
\<close>

definition optimized :: "library \<Rightarrow> gplvm \<Rightarrow> gplvm" where
  "optimized lib m = m\<lparr>unconstrained := last (trainable_variables m # iterations lib m)\<rparr>"

text \<open>
  The last code cell: for each distinct label \<open>i\<close>, in increasing order
  (\<^verbatim>\<open>np.unique\<close>), the two columns of the rows of \<open>xpca\<close> and of the learned means whose
  label is \<open>i\<close>. A boolean mask of another length than the array, or a column that the
  array does not have, raises \<^verbatim>\<open>IndexError\<close>.
\<close>

datatype error = IndexError

definition masked_column :: "matrix \<Rightarrow> int list \<Rightarrow> int \<Rightarrow> nat \<Rightarrow> error + real list" where
  "masked_column X labels i c =
     (if length labels \<noteq> length X \<or> (\<exists>r \<in> set X. length r \<le> c) then Inl IndexError
      else Inr (map (\<lambda>rl. fst rl ! c) (filter (\<lambda>rl. snd rl = i) (zip X labels))))"

definition scatter :: "matrix \<Rightarrow> int list \<Rightarrow> int \<Rightarrow> error + (real list \<times> real list)" where
  "scatter X labels i =
     (case masked_column X labels i 0 of
        Inl e \<Rightarrow> Inl e
      | Inr xs \<Rightarrow> (case masked_column X labels i 1 of
                    Inl e \<Rightarrow> Inl e
                  | Inr ys \<Rightarrow> Inr (xs, ys)))"

definition plots :: "matrix \<Rightarrow> matrix \<Rightarrow> int list
    \<Rightarrow> (int \<times> (error + (real list \<times> real list)) \<times> (error + (real list \<times> real list))) list" where
  "plots xpca gplvm_x_mean labels =
     map (\<lambda>i. (i, scatter xpca labels i, scatter gplvm_x_mean labels i))
       (sort (remdups labels))"

text \<open>
  A run of the notebook on the loaded file, with the order \<open>p\<close> that the random generator
  draws in cell 8: the model as constructed, the optimizer's iterations, the model after
  the optimizer, and the plots.
\<close>

record run =
  constructed :: gplvm
  iterates :: "variables list"
  trained :: gplvm
  plotted :: "(int \<times> (error + (real list \<times> real list)) \<times> (error + (real list \<times> real list))) list"

definition notebook :: "library \<Rightarrow> nat list \<Rightarrow> npz \<Rightarrow> run" where
  "notebook lib p file =
     (let Y = npz_Y file;
          labels = npz_labels file;
          gplvm = gplvm_constructed lib p Y;
          its = iterations lib gplvm;
          gplvm' = optimized lib gplvm;
          xpca = pca_reduce lib Y latent_dim;
          gplvm_x_mean = read_value gplvm' X_data_mean
      in \<lparr>constructed = gplvm, iterates = its, trained = gplvm',
          plotted = plots xpca gplvm_x_mean labels\<rparr>)"

subsection \<open>Inside the bound: the Kullback-Leibler term and the kernel\<close>

text \<open>
  Modelled from the spec: the Kullback-Leibler term is computed inside the library's
  \<^verbatim>\<open>log_marginal_likelihood\<close>, which is not in the notebook. The spec (section 4.3)
  describes the closed-form divergence of each of the N independent Gaussians, with
  mean and diagonal variance, to a standard normal prior, summed over all N points and
  Q dimensions. For one coordinate with mean \<open>mu\<close> and variance \<open>s\<close> the closed form is
  \<open>(s + mu\<^sup>2 - 1 - ln s) / 2\<close>. The means and variances are the values of the model's
  parameters \<^verbatim>\<open>x_data_mean\<close> and \<^verbatim>\<open>x_data_var\<close>.
\<close>

definition kl_coordinate :: "real \<Rightarrow> real \<Rightarrow> real" where
  "kl_coordinate mu s = (s + mu\<^sup>2 - 1 - ln s) / 2"

definition kl_point :: "real list \<Rightarrow> real list \<Rightarrow> real" where
  "kl_point mu s = sum_list (map2 kl_coordinate mu s)"

definition kl_term :: "matrix \<Rightarrow> matrix \<Rightarrow> real" where
  "kl_term x_mean x_var = sum_list (map2 kl_point x_mean x_var)"

definition kl_divergence :: "gplvm \<Rightarrow> real" where
  "kl_divergence m = kl_term (read_value m X_data_mean) (read_value m X_data_var)"

definition same_shape :: "matrix \<Rightarrow> matrix \<Rightarrow> bool" where
  "same_shape A B = list_all2 (\<lambda>a b. length a = length b) A B"

definition positive_matrix :: "matrix \<Rightarrow> bool" where
  "positive_matrix A = list_all (list_all (\<lambda>v. 0 < v)) A"

text \<open>
  Modelled from the spec: the kernel's covariance function is inside the library. The
  notebook constructs a squared exponential kernel with one length scale for each latent
  dimension, and the spec (sections 2 and 4.1) describes a covariance function with one
  length scale per latent dimension and one overall variance scale, returning the
  matrix of pairwise covariances of a batch. The squared exponential covariance of \<open>x\<close>
  and \<open>y\<close> is the variance times \<open>exp (- d / 2)\<close>, where \<open>d\<close> is the sum over the
  dimensions of the squared difference of the coordinates divided by the length scale.
\<close>

definition scaled_square_dist :: "real list \<Rightarrow> real list \<Rightarrow> real list \<Rightarrow> real" where
  "scaled_square_dist ls x y = sum_list (map (\<lambda>(l, a, b). ((a - b) / l)\<^sup>2) (zip ls (zip x y)))"

definition K :: "kernel \<Rightarrow> real list \<Rightarrow> real list \<Rightarrow> real" where
  "K k x y = variance k * exp (- scaled_square_dist (lengthscale k) x y / 2)"

definition kernel_matrix :: "kernel \<Rightarrow> matrix \<Rightarrow> matrix" where
  "kernel_matrix k X = map (\<lambda>x. map (\<lambda>y. K k x y) X) X"

text \<open>
  A kernel is valid when its variance and its length scales are strictly positive. The
  quadratic form of a square matrix at a vector of coefficients is the sum of
  \<open>c\<^sub>i A\<^sub>i\<^sub>j c\<^sub>j\<close> over all \<open>i\<close> and \<open>j\<close>.
\<close>

definition valid_kernel :: "kernel \<Rightarrow> bool" where
  "valid_kernel k = (0 < variance k \<and> list_all (\<lambda>l. 0 < l) (lengthscale k))"

definition quadratic_form :: "matrix \<Rightarrow> real list \<Rightarrow> real" where
  "quadratic_form A c = (\<Sum>i<length A. \<Sum>j<length A. c ! i * (A ! i ! j) * c ! j)"

text \<open>
  \<open>v\<close> is an eigenvector of the square matrix \<open>A\<close> for the eigenvalue \<open>lam\<close>: it has
  the matrix's size, it is not the zero vector, and \<open>A v = lam v\<close> in every row.
\<close>

definition eigenpair :: "matrix \<Rightarrow> real \<Rightarrow> real list \<Rightarrow> bool" where
  "eigenpair A lam v =
     (length v = length A \<and> list_ex (\<lambda>x. x \<noteq> 0) v
      \<and> list_all (\<lambda>i. (\<Sum>j<length A. A ! i ! j * v ! j) = lam * v ! i) [0..<length A])"

text \<open>
  A stand-in for the library, for evaluating the definitions on concrete inputs: a
  projection that keeps the first columns, a constant bound, and an optimizer that makes
  one iteration, which sets every variable to the 1 by 1 matrix holding \<open>- 5\<close>.
\<close>

definition example_library :: library where
  "example_library =
     \<lparr>pca_reduce = (\<lambda>Y k. map (take k) Y),
      variance_default = 1,
      log_marginal_likelihood = (\<lambda>m. Finite 0),
      ci_niter = (\<lambda>n. n),
      minimize = (\<lambda>f method_name u n. [\<lambda>q. [[- 5]]])\<rparr>"

text \<open>
  A second stand-in, whose bound is the constant 3 and whose optimizer looks at what it
  is handed: it evaluates the objective at the variables' starting values and makes one
  iteration, which keeps those values, when the objective there is \<open>- 3\<close>, and none
  otherwise.
\<close>

definition probing_library :: library where
  "probing_library =
     \<lparr>pca_reduce = (\<lambda>Y k. map (take k) Y),
      variance_default = 1,
      log_marginal_likelihood = (\<lambda>m. Finite 3),
      ci_niter = (\<lambda>n. n),
      minimize = (\<lambda>f method_name u n. if f u = Finite (- 3) then [u] else [])\<rparr>"

section \<open>Properties\<close>

subsection \<open>Initial inducing locations\<close>

lemma row_order_length: "row_order p n \<Longrightarrow> length p = n"
  unfolding row_order_def using distinct_card [of p] by simp

lemma row_order_nth: "row_order p n \<Longrightarrow> i \<in> set p \<Longrightarrow> i < n"
  unfolding row_order_def by simp

lemma distinct_map_nth:
  assumes "distinct js" and "distinct x" and "\<forall>j \<in> set js. j < length x"
  shows "distinct (map (\<lambda>i. x ! i) js)"
proof -
  have "inj_on (\<lambda>i. x ! i) (set js)"
  proof (rule inj_onI)
    fix a b
    assume "a \<in> set js" and "b \<in> set js" and "x ! a = x ! b"
    with assms(2,3) show "a = b"
      by (simp add: nth_eq_iff_index_eq)
  qed
  with assms(1) show ?thesis
    by (simp add: distinct_map)
qed

lemma inducing_variable_indices:
  "inducing_variable p x = map (\<lambda>i. x ! i) (take num_inducing p)"
  by (simp add: inducing_variable_def permutation_def take_map)

lemma permutation_nth:
  "i < length p \<Longrightarrow> permutation p x ! i = x ! (p ! i)"
  by (simp add: permutation_def)

lemma mset_permutation:
  assumes "row_order p (length x)"
  shows "mset (permutation p x) = mset x"
proof -
  from assms have "distinct p" and "set p = set [0..<length x]"
    by (simp_all add: row_order_def)
  then have "mset p = mset [0..<length x]"
    by (metis distinct_upt set_eq_iff_mset_eq_distinct)
  then have "mset (map (\<lambda>i. x ! i) p) = mset (map (\<lambda>i. x ! i) [0..<length x])"
    by (metis mset_map)
  then show ?thesis
    by (simp add: permutation_def map_nth)
qed

text \<open>
  Claim C10. The initial inducing variable is the first 20 rows of a random permutation
  of the initial latent means. The permuted matrix has the rows of the initial means,
  each as often as they have it, its row \<open>i\<close> being their row \<open>p ! i\<close> for the order \<open>p\<close>
  that the generator drew; the inducing variable is its first \<open>num_inducing\<close> rows,
  which are the rows of the initial means at the first \<open>num_inducing\<close> indices of \<open>p\<close>, in
  that order. So its rows are drawn without replacement (they are rows of the initial
  means at pairwise distinct indices), each of them is the initial latent mean of some
  data point, and they are pairwise distinct whenever the initial means are. With 100
  data points and means of \<open>latent_dim\<close> columns it is a 20 by 2 matrix.
\<close>

theorem inducing_variable_drawn_without_replacement:
  assumes "row_order p (length x)"
  shows "(\<exists>js. distinct js \<and> (\<forall>j \<in> set js. j < length x)
            \<and> inducing_variable p x = map (\<lambda>j. x ! j) js)
       \<and> set (inducing_variable p x) \<subseteq> set x
       \<and> (distinct x \<longrightarrow> distinct (inducing_variable p x))
       \<and> length (inducing_variable p x) = min num_inducing (length x)
       \<and> (length x = 100 \<longrightarrow> length (inducing_variable p x) = 20)
       \<and> ((\<forall>r \<in> set x. length r = latent_dim)
            \<longrightarrow> (\<forall>z \<in> set (inducing_variable p x). length z = 2))
       \<and> mset (permutation p x) = mset x
       \<and> (\<forall>i < length x. permutation p x ! i = x ! (p ! i))
       \<and> inducing_variable p x = take num_inducing (permutation p x)
       \<and> inducing_variable p x = map (\<lambda>j. x ! j) (take num_inducing p)
       \<and> (\<forall>i < length (inducing_variable p x). inducing_variable p x ! i = x ! (p ! i))"
proof -
  let ?js = "take num_inducing p"
  have lp: "length p = length x"
    using assms by (rule row_order_length)
  have d: "distinct ?js"
    using assms by (simp add: row_order_def)
  have b: "\<forall>j \<in> set ?js. j < length x"
    using assms by (auto dest: in_set_takeD row_order_nth)
  have sub: "set (inducing_variable p x) \<subseteq> set x"
    using b by (auto simp: inducing_variable_indices)
  have len: "length (inducing_variable p x) = min num_inducing (length x)"
    using lp by (simp add: inducing_variable_indices min.commute)
  have c1: "\<exists>js. distinct js \<and> (\<forall>j \<in> set js. j < length x)
      \<and> inducing_variable p x = map (\<lambda>j. x ! j) js"
    using d b inducing_variable_indices by blast
  have c3: "distinct x \<longrightarrow> distinct (inducing_variable p x)"
    using d b by (simp add: inducing_variable_indices distinct_map_nth)
  have c5: "length x = 100 \<longrightarrow> length (inducing_variable p x) = 20"
    using len by (simp add: num_inducing_def)
  have c6: "(\<forall>r \<in> set x. length r = latent_dim)
      \<longrightarrow> (\<forall>z \<in> set (inducing_variable p x). length z = 2)"
    using sub by (auto simp: latent_dim_def)
  have c7: "mset (permutation p x) = mset x"
    using assms by (rule mset_permutation)
  have c8: "\<forall>i < length x. permutation p x ! i = x ! (p ! i)"
    using lp by (simp add: permutation_nth)
  have c9: "inducing_variable p x = take num_inducing (permutation p x)"
    by (simp add: inducing_variable_def)
  have c10: "inducing_variable p x = map (\<lambda>j. x ! j) (take num_inducing p)"
    by (rule inducing_variable_indices)
  have c11: "\<forall>i < length (inducing_variable p x). inducing_variable p x ! i = x ! (p ! i)"
    by (simp add: inducing_variable_indices)
  from c1 sub c3 len c5 c6 c7 c8 c9 c10 c11 show ?thesis
    by (intro conjI)
qed

theorem inducing_variable_drawn_without_replacement_witness:
  "row_order (rev [0..<100]) (length (map (\<lambda>i. [real i, 0]) [0..<100]))
   \<and> distinct (map (\<lambda>i. [real i, 0]) [0..<100])
   \<and> length (map (\<lambda>i. [real i, 0]) [0..<100]) = 100
   \<and> set (inducing_variable (rev [0..<100]) (map (\<lambda>i. [real i, 0]) [0..<100]))
        \<subseteq> set (map (\<lambda>i. [real i, 0]) [0..<100])
   \<and> distinct (inducing_variable (rev [0..<100]) (map (\<lambda>i. [real i, 0]) [0..<100]))
   \<and> length (inducing_variable (rev [0..<100]) (map (\<lambda>i. [real i, 0]) [0..<100])) = 20
   \<and> inducing_variable (rev [0..<100]) (map (\<lambda>i. [real i, 0]) [0..<100]) ! 0 = [99, 0]
   \<and> inducing_variable (rev [0..<100]) (map (\<lambda>i. [real i, 0]) [0..<100]) ! 19 = [80, 0]
   \<and> take num_inducing (map (\<lambda>i. [real i, 0]) [0..<100]) ! 0 = [0, 0]"
proof -
  let ?x = "map (\<lambda>i. [real i, 0]) [0..<100]"
  let ?p = "rev [0..<100]"
  have h: "row_order ?p (length ?x)"
    by (simp add: row_order_def)
  have dx: "distinct ?x"
    by (simp add: distinct_map inj_on_def)
  have lx: "length ?x = 100"
    by simp
  note t = inducing_variable_drawn_without_replacement [OF h]
  from t have sub: "set (inducing_variable ?p ?x) \<subseteq> set ?x"
    by (rule conjunct2 [THEN conjunct1])
  from t dx have di: "distinct (inducing_variable ?p ?x)"
    by blast
  from t lx have li: "length (inducing_variable ?p ?x) = 20"
    by blast
  from t have "\<forall>i < length (inducing_variable ?p ?x). inducing_variable ?p ?x ! i = ?x ! (?p ! i)"
    by blast
  with li have rows: "inducing_variable ?p ?x ! 0 = ?x ! (?p ! 0)"
    "inducing_variable ?p ?x ! 19 = ?x ! (?p ! 19)"
    by simp_all
  have r0: "inducing_variable ?p ?x ! 0 = [99, 0]"
    unfolding rows by (simp add: rev_nth)
  have r19: "inducing_variable ?p ?x ! 19 = [80, 0]"
    unfolding rows by (simp add: rev_nth)
  have head: "take num_inducing ?x ! 0 = [0, 0]"
    by (simp add: num_inducing_def)
  from h dx lx sub di li r0 r19 head show ?thesis
    by (intro conjI)
qed

subsection \<open>The objective is the negated bound\<close>

lemma negative_negative: "negative (negative a) = a"
  by (cases a) simp_all

lemma less_equal_negative: "less_equal (negative a) (negative b) = less_equal b a"
  by (cases a; cases b) simp_all

text \<open>
  Claim C2. The objective handed to the optimizer is the pointwise negation of the
  model's bound. In a run of the notebook, and for any model, the iterations are those of
  \<open>minimize\<close> called with the function that maps each setting \<open>u\<close> of the variables to
  minus \<open>log_marginal_likelihood\<close> of the model with these variables, with the method
  \<^verbatim>\<open>bfgs\<close>, the model's trainable variables and the budget \<open>maxiter\<close>. At every
  setting of the variables \<open>optimization_step\<close> returns minus the bound, and negating
  it gives the bound back. Negation reverses the order of the values, so a setting of
  the variables minimizes the objective exactly when it maximizes the bound.
\<close>

theorem optimization_step_is_negated_bound:
  "iterates (notebook lib p file)
     = minimize lib
         (\<lambda>u. negative (log_marginal_likelihood lib
                 ((constructed (notebook lib p file))\<lparr>unconstrained := u\<rparr>)))
         ''bfgs'' (trainable_variables (constructed (notebook lib p file))) (maxiter lib)
   \<and> (\<forall>m. iterations lib m
          = minimize lib (\<lambda>u. negative (log_marginal_likelihood lib (m\<lparr>unconstrained := u\<rparr>)))
              ''bfgs'' (trainable_variables m) (maxiter lib))
   \<and> (\<forall>m. optimization_step lib m = negative (log_marginal_likelihood lib m))
   \<and> (\<forall>m u. objective lib m u = negative (log_marginal_likelihood lib (m\<lparr>unconstrained := u\<rparr>)))
   \<and> (\<forall>m. log_marginal_likelihood lib m = negative (optimization_step lib m))
   \<and> (\<forall>m m'. less_equal (optimization_step lib m) (optimization_step lib m')
          = less_equal (log_marginal_likelihood lib m') (log_marginal_likelihood lib m))
   \<and> (\<forall>m. (\<forall>m'. less_equal (optimization_step lib m) (optimization_step lib m'))
          = (\<forall>m'. less_equal (log_marginal_likelihood lib m') (log_marginal_likelihood lib m)))
   \<and> (\<forall>m u u'. less_equal (objective lib m u) (objective lib m u')
          = less_equal (log_marginal_likelihood lib (m\<lparr>unconstrained := u'\<rparr>))
              (log_marginal_likelihood lib (m\<lparr>unconstrained := u\<rparr>)))
   \<and> (\<forall>m u. (\<forall>u'. less_equal (objective lib m u) (objective lib m u'))
          = (\<forall>u'. less_equal (log_marginal_likelihood lib (m\<lparr>unconstrained := u'\<rparr>))
                (log_marginal_likelihood lib (m\<lparr>unconstrained := u\<rparr>))))"
proof -
  have obj: "objective lib m = (\<lambda>u. negative (log_marginal_likelihood lib (m\<lparr>unconstrained := u\<rparr>)))"
    for m
    by (rule ext) (simp add: objective_def optimization_step_def)
  have its: "iterations lib m
      = minimize lib (\<lambda>u. negative (log_marginal_likelihood lib (m\<lparr>unconstrained := u\<rparr>)))
          ''bfgs'' (trainable_variables m) (maxiter lib)" for m
    by (simp only: iterations_def obj)
  have run: "iterates (notebook lib p file) = iterations lib (constructed (notebook lib p file))"
    by (simp add: notebook_def Let_def)
  have c1: "iterates (notebook lib p file)
     = minimize lib
         (\<lambda>u. negative (log_marginal_likelihood lib
                 ((constructed (notebook lib p file))\<lparr>unconstrained := u\<rparr>)))
         ''bfgs'' (trainable_variables (constructed (notebook lib p file))) (maxiter lib)"
    by (simp only: run its)
  have c2: "\<forall>m. iterations lib m
      = minimize lib (\<lambda>u. negative (log_marginal_likelihood lib (m\<lparr>unconstrained := u\<rparr>)))
          ''bfgs'' (trainable_variables m) (maxiter lib)"
    using its by (rule allI)
  have c3: "\<forall>m. optimization_step lib m = negative (log_marginal_likelihood lib m)"
    by (simp add: optimization_step_def)
  have c4: "\<forall>m u. objective lib m u
      = negative (log_marginal_likelihood lib (m\<lparr>unconstrained := u\<rparr>))"
    by (simp add: obj)
  have c5: "\<forall>m. log_marginal_likelihood lib m = negative (optimization_step lib m)"
    by (simp add: optimization_step_def negative_negative)
  have c6: "\<forall>m m'. less_equal (optimization_step lib m) (optimization_step lib m')
      = less_equal (log_marginal_likelihood lib m') (log_marginal_likelihood lib m)"
    by (simp add: optimization_step_def less_equal_negative)
  have c7: "\<forall>m. (\<forall>m'. less_equal (optimization_step lib m) (optimization_step lib m'))
      = (\<forall>m'. less_equal (log_marginal_likelihood lib m') (log_marginal_likelihood lib m))"
    by (simp add: optimization_step_def less_equal_negative)
  have c8: "\<forall>m u u'. less_equal (objective lib m u) (objective lib m u')
      = less_equal (log_marginal_likelihood lib (m\<lparr>unconstrained := u'\<rparr>))
          (log_marginal_likelihood lib (m\<lparr>unconstrained := u\<rparr>))"
    by (simp add: obj less_equal_negative)
  have c9: "\<forall>m u. (\<forall>u'. less_equal (objective lib m u) (objective lib m u'))
      = (\<forall>u'. less_equal (log_marginal_likelihood lib (m\<lparr>unconstrained := u'\<rparr>))
            (log_marginal_likelihood lib (m\<lparr>unconstrained := u\<rparr>)))"
    by (simp add: obj less_equal_negative)
  from c1 c2 c3 c4 c5 c6 c7 c8 c9 show ?thesis
    by (intro conjI)
qed

text \<open>
  On 100 observations of 12 dimensions and the order that reverses the rows, the
  optimizer of \<open>probing_library\<close>, whose bound is 3 everywhere, finds the value \<open>- 3\<close>
  in what it is handed, and so makes its one iteration.
\<close>

theorem optimization_step_is_negated_bound_witness:
  "iterates (notebook probing_library (rev [0..<100])
       \<lparr>npz_Y = map (\<lambda>i. replicate 12 (real i)) [0..<100], npz_labels = replicate 100 0\<rparr>)
     = [trainable_variables (constructed (notebook probing_library (rev [0..<100])
         \<lparr>npz_Y = map (\<lambda>i. replicate 12 (real i)) [0..<100], npz_labels = replicate 100 0\<rparr>))]
   \<and> optimization_step probing_library
       (constructed (notebook probing_library (rev [0..<100])
         \<lparr>npz_Y = map (\<lambda>i. replicate 12 (real i)) [0..<100], npz_labels = replicate 100 0\<rparr>))
     = Finite (- 3)"
proof -
  let ?f = "\<lparr>npz_Y = map (\<lambda>i. replicate 12 (real i)) [0..<100], npz_labels = replicate 100 0\<rparr>"
  let ?p = "rev [0..<100]"
  let ?m = "constructed (notebook probing_library ?p ?f)"
  note t = optimization_step_is_negated_bound [of probing_library ?p ?f]
  from t have "iterates (notebook probing_library ?p ?f)
     = minimize probing_library
         (\<lambda>u. negative (log_marginal_likelihood probing_library (?m\<lparr>unconstrained := u\<rparr>)))
         ''bfgs'' (trainable_variables ?m) (maxiter probing_library)"
    by (rule conjunct1)
  also have "\<dots> = [trainable_variables ?m]"
    by (simp add: probing_library_def)
  finally have a: "iterates (notebook probing_library ?p ?f) = [trainable_variables ?m]" .
  from t have "\<forall>m. optimization_step probing_library m
      = negative (log_marginal_likelihood probing_library m)"
    by (rule conjunct2 [THEN conjunct2, THEN conjunct1])
  then have "optimization_step probing_library ?m
      = negative (log_marginal_likelihood probing_library ?m)"
    by (rule spec)
  then have b: "optimization_step probing_library ?m = Finite (- 3)"
    by (simp add: probing_library_def)
  from a b show ?thesis
    by (intro conjI)
qed

subsection \<open>The labels\<close>

lemma plots_labels: "map fst (plots a b labels) = sort (remdups labels)"
  by (simp add: plots_def comp_def)

lemma plotted_labels:
  "map fst (plotted (notebook lib p file)) = sort (remdups (npz_labels file))"
  by (simp add: notebook_def Let_def plots_labels)

text \<open>
  Claim C1. The labels are not read before the plots: two runs of the notebook on files
  with the same observations, with the same library and the same order drawn by the
  random generator, construct the same model, make the same optimizer iterations and end
  with the same model, so every learned parameter value is the same. The labels enter
  the plots only, together with the projection of the observations and the learned means.
\<close>

theorem labels_read_by_plots_only:
  assumes "npz_Y file1 = npz_Y file2"
  shows "constructed (notebook lib p file1) = constructed (notebook lib p file2)
       \<and> iterates (notebook lib p file1) = iterates (notebook lib p file2)
       \<and> trained (notebook lib p file1) = trained (notebook lib p file2)
       \<and> (\<forall>q. read_value (trained (notebook lib p file1)) q
               = read_value (trained (notebook lib p file2)) q)
       \<and> plotted (notebook lib p file1)
           = plots (pca_reduce lib (npz_Y file1) latent_dim)
               (read_value (trained (notebook lib p file1)) X_data_mean) (npz_labels file1)"
  using assms by (simp add: notebook_def Let_def)

theorem labels_read_by_plots_only_witness:
  "npz_Y \<lparr>npz_Y = [[1, 2, 3]], npz_labels = [0]\<rparr>
     = npz_Y \<lparr>npz_Y = [[1, 2, 3]], npz_labels = [1]\<rparr>
   \<and> trained (notebook example_library [0] \<lparr>npz_Y = [[1, 2, 3]], npz_labels = [0]\<rparr>)
     = trained (notebook example_library [0] \<lparr>npz_Y = [[1, 2, 3]], npz_labels = [1]\<rparr>)
   \<and> iterates (notebook example_library [0] \<lparr>npz_Y = [[1, 2, 3]], npz_labels = [0]\<rparr>)
     = iterates (notebook example_library [0] \<lparr>npz_Y = [[1, 2, 3]], npz_labels = [1]\<rparr>)
   \<and> plotted (notebook example_library [0] \<lparr>npz_Y = [[1, 2, 3]], npz_labels = [0]\<rparr>)
     \<noteq> plotted (notebook example_library [0] \<lparr>npz_Y = [[1, 2, 3]], npz_labels = [1]\<rparr>)"
proof -
  let ?f1 = "\<lparr>npz_Y = [[1, 2, 3]], npz_labels = [0]\<rparr>"
  let ?f2 = "\<lparr>npz_Y = [[1, 2, 3]], npz_labels = [1]\<rparr>"
  have h: "npz_Y ?f1 = npz_Y ?f2"
    by simp
  have "map fst (plotted (notebook example_library [0] ?f1))
      \<noteq> map fst (plotted (notebook example_library [0] ?f2))"
    by (simp add: plotted_labels)
  then have d: "plotted (notebook example_library [0] ?f1)
      \<noteq> plotted (notebook example_library [0] ?f2)"
    by metis
  from labels_read_by_plots_only [OF h, of example_library "[0]"]
  have "trained (notebook example_library [0] ?f1) = trained (notebook example_library [0] ?f2)"
    and "iterates (notebook example_library [0] ?f1) = iterates (notebook example_library [0] ?f2)"
    by (rule conjunct2 [THEN conjunct2, THEN conjunct1], rule conjunct2 [THEN conjunct1])
  with h d show ?thesis
    by (intro conjI)
qed

subsection \<open>The transform layer\<close>

text \<open>
  Facts about the real function \<open>softplus\<close>: it is positive, it undoes its inverse on
  the positive reals, it is strictly increasing and it has a derivative everywhere. They
  are facts of exact arithmetic and say nothing about the rounding of 64-bit floats.
\<close>

lemma softplus_pos: "0 < softplus x"
  by (simp add: softplus_def add_pos_pos)

lemma softplus_round_trip: "0 < y \<Longrightarrow> softplus (softplus_inverse y) = y"
  by (simp add: softplus_def softplus_inverse_def)

lemma softplus_strict_mono: "strict_mono softplus"
  by (simp add: strict_mono_def softplus_def add_pos_pos)

lemma softplus_deriv: "(softplus has_real_derivative (exp x / (1 + exp x))) (at x)"
proof -
  have pos: "0 < 1 + exp x"
    using exp_gt_zero [of x] by linarith
  have outer: "(ln has_real_derivative 1 / (1 + exp x)) (at (1 + exp x))"
    using pos by (rule DERIV_ln_divide)
  have inner: "((\<lambda>x. 1 + exp x) has_real_derivative 0 + exp x) (at x)"
    by (intro DERIV_add DERIV_const DERIV_exp)
  have "((\<lambda>x. ln (1 + exp x)) has_real_derivative (1 / (1 + exp x)) * (0 + exp x)) (at x)"
    using outer inner by (rule DERIV_chain2)
  then show ?thesis
    by (simp add: softplus_def [abs_def])
qed



text \<open>
  Over the reals a value stored in a parameter is read back unchanged, provided that it
  is strictly positive where the parameter's transform is Softplus.
\<close>

lemma read_value_assign:
  assumes "transform_of q = None \<or> (\<forall>r \<in> set v. \<forall>y \<in> set r. 0 < y)"
  shows "read_value (assign m q v) q = v"
proof -
  have "forward (transform_of q) (backward (transform_of q) y) = y"
    if "r \<in> set v" and "y \<in> set r" for r y
  proof (cases "transform_of q")
    case None
    then show ?thesis by simp
  next
    case (Some t)
    with assms that have "0 < y" by auto
    with Some show ?thesis
      by (cases t) (simp add: softplus_round_trip)
  qed
  then have "map (map (forward (transform_of q) \<circ> backward (transform_of q))) v = v"
    by (intro map_idI) simp
  then show ?thesis
    by (simp add: read_value_def assign_def Parameter_def)
qed



subsection \<open>The Kullback-Leibler term\<close>

lemma kl_coordinate_nonneg: "0 < s \<Longrightarrow> 0 \<le> kl_coordinate mu s"
proof -
  assume "0 < s"
  then have "ln s \<le> s - 1"
    by (rule ln_le_minus_one)
  moreover have "0 \<le> mu\<^sup>2"
    by simp
  ultimately have "0 \<le> s + mu\<^sup>2 - 1 - ln s"
    by linarith
  then show ?thesis
    by (simp add: kl_coordinate_def)
qed

lemma kl_coordinate_eq_0_iff:
  assumes "0 < s"
  shows "kl_coordinate mu s = 0 \<longleftrightarrow> mu = 0 \<and> s = 1"
proof
  assume z: "kl_coordinate mu s = 0"
  have a: "0 \<le> s - 1 - ln s"
    using ln_le_minus_one [OF assms] by simp
  have b: "0 \<le> mu\<^sup>2"
    by simp
  from z have "(s - 1 - ln s) + mu\<^sup>2 = 0"
    by (simp add: kl_coordinate_def)
  with a b have "s - 1 - ln s = 0" and "mu\<^sup>2 = 0"
    by linarith+
  then have "ln s = s - 1" and "mu = 0"
    by simp_all
  with assms show "mu = 0 \<and> s = 1"
    using ln_eq_minus_one by blast
next
  assume "mu = 0 \<and> s = 1"
  then show "kl_coordinate mu s = 0"
    by (simp add: kl_coordinate_def)
qed

lemma kl_point_props:
  assumes "length mu = length s" and "\<forall>v \<in> set s. 0 < v"
  shows "0 \<le> kl_point mu s
       \<and> (kl_point mu s = 0 \<longleftrightarrow> (\<forall>x \<in> set mu. x = 0) \<and> (\<forall>v \<in> set s. v = 1))"
  using assms
proof (induction mu s rule: list_induct2)
  case Nil
  then show ?case
    by (simp add: kl_point_def)
next
  case (Cons x xs v vs)
  then have ih: "0 \<le> kl_point xs vs"
    "kl_point xs vs = 0 \<longleftrightarrow> (\<forall>x \<in> set xs. x = 0) \<and> (\<forall>v \<in> set vs. v = 1)"
    by simp_all
  from Cons.prems have v: "0 < v"
    by simp
  have unfold: "kl_point (x # xs) (v # vs) = kl_coordinate x v + kl_point xs vs"
    by (simp add: kl_point_def)
  have n: "0 \<le> kl_coordinate x v"
    using v by (rule kl_coordinate_nonneg)
  have "kl_coordinate x v + kl_point xs vs = 0
      \<longleftrightarrow> kl_coordinate x v = 0 \<and> kl_point xs vs = 0"
    using n ih(1) by linarith
  then show ?case
    using n ih kl_coordinate_eq_0_iff [OF v, of x] by (auto simp: unfold)
qed

lemma kl_term_props:
  assumes "same_shape x_mean x_var" and "\<forall>r \<in> set x_var. \<forall>v \<in> set r. 0 < v"
  shows "0 \<le> kl_term x_mean x_var
       \<and> (kl_term x_mean x_var = 0
            \<longleftrightarrow> (\<forall>r \<in> set x_mean. \<forall>x \<in> set r. x = 0) \<and> (\<forall>r \<in> set x_var. \<forall>v \<in> set r. v = 1))"
  using assms unfolding same_shape_def
proof (induction x_mean x_var rule: list_all2_induct)
  case Nil
  then show ?case
    by (simp add: kl_term_def)
next
  case (Cons mu x_mean s x_var)
  then have ih: "0 \<le> kl_term x_mean x_var"
    "kl_term x_mean x_var = 0
      \<longleftrightarrow> (\<forall>r \<in> set x_mean. \<forall>x \<in> set r. x = 0) \<and> (\<forall>r \<in> set x_var. \<forall>v \<in> set r. v = 1)"
    by simp_all
  from Cons have p: "0 \<le> kl_point mu s"
    "kl_point mu s = 0 \<longleftrightarrow> (\<forall>x \<in> set mu. x = 0) \<and> (\<forall>v \<in> set s. v = 1)"
    using kl_point_props [of mu s] by simp_all
  have unfold: "kl_term (mu # x_mean) (s # x_var) = kl_point mu s + kl_term x_mean x_var"
    by (simp add: kl_term_def)
  have "kl_point mu s + kl_term x_mean x_var = 0
      \<longleftrightarrow> kl_point mu s = 0 \<and> kl_term x_mean x_var = 0"
    using p(1) ih(1) by linarith
  then show ?case
    using p ih by (auto simp: unfold)
qed

lemma same_shape_read_value:
  "same_shape (unconstrained m q) (unconstrained m q')
    \<Longrightarrow> same_shape (read_value m q) (read_value m q')"
  by (simp add: same_shape_def read_value_def list_all2_map1 list_all2_map2)

lemma positive_matrix_iff: "positive_matrix A \<longleftrightarrow> (\<forall>r \<in> set A. \<forall>v \<in> set r. 0 < v)"
  by (simp add: positive_matrix_def list_all_iff)

lemma positive_matrix_read_value: "positive_matrix (read_value m X_data_var)"
  by (auto simp: positive_matrix_iff read_value_def softplus_pos)

text \<open>
  Claim C4. For latent means and strictly positive latent variances of the same shape,
  the Kullback-Leibler term, summed over all points and dimensions, is zero exactly when
  every mean component is zero and every variance component is one; it is never
  negative. For a single point it is the divergence of that one Gaussian, a sum over its
  dimensions in which nothing is divided by the number of points. The same holds of the
  term at the model's parameter values, whose variances the transform keeps positive.
\<close>

theorem kl_term_zero_iff_standard_normal:
  assumes "same_shape x_mean x_var" and "positive_matrix x_var"
  shows "(kl_term x_mean x_var = 0
            \<longleftrightarrow> (\<forall>r \<in> set x_mean. \<forall>x \<in> set r. x = 0) \<and> (\<forall>r \<in> set x_var. \<forall>v \<in> set r. v = 1))
       \<and> 0 \<le> kl_term x_mean x_var
       \<and> kl_term [mu] [s] = kl_point mu s
       \<and> kl_point mu s = (\<Sum>(a, v) \<leftarrow> zip mu s. (v + a\<^sup>2 - 1 - ln v) / 2)
       \<and> (same_shape (unconstrained m X_data_mean) (unconstrained m X_data_var) \<longrightarrow>
            (kl_divergence m = 0
               \<longleftrightarrow> (\<forall>r \<in> set (read_value m X_data_mean). \<forall>x \<in> set r. x = 0)
                 \<and> (\<forall>r \<in> set (read_value m X_data_var). \<forall>v \<in> set r. v = 1)))"
proof -
  have pos: "\<forall>r \<in> set x_var. \<forall>v \<in> set r. 0 < v"
    using assms(2) by (simp add: positive_matrix_iff)
  note general = kl_term_props [OF assms(1) pos]
  have one: "kl_term [mu] [s] = kl_point mu s"
    by (simp add: kl_term_def)
  have form: "kl_point mu s = (\<Sum>(a, v) \<leftarrow> zip mu s. (v + a\<^sup>2 - 1 - ln v) / 2)"
    by (simp add: kl_point_def kl_coordinate_def [abs_def])
  have model: "kl_divergence m = 0
      \<longleftrightarrow> (\<forall>r \<in> set (read_value m X_data_mean). \<forall>x \<in> set r. x = 0)
        \<and> (\<forall>r \<in> set (read_value m X_data_var). \<forall>v \<in> set r. v = 1)"
    if "same_shape (unconstrained m X_data_mean) (unconstrained m X_data_var)"
  proof -
    have "\<forall>r \<in> set (read_value m X_data_var). \<forall>v \<in> set r. 0 < v"
      using positive_matrix_read_value [of m] by (simp add: positive_matrix_iff)
    with same_shape_read_value [OF that] show ?thesis
      unfolding kl_divergence_def by (rule kl_term_props [THEN conjunct2])
  qed
  from general have nonneg: "0 \<le> kl_term x_mean x_var"
    by (rule conjunct1)
  from general have zero: "kl_term x_mean x_var = 0
      \<longleftrightarrow> (\<forall>r \<in> set x_mean. \<forall>x \<in> set r. x = 0) \<and> (\<forall>r \<in> set x_var. \<forall>v \<in> set r. v = 1)"
    by (rule conjunct2)
  have model': "same_shape (unconstrained m X_data_mean) (unconstrained m X_data_var) \<longrightarrow>
      (kl_divergence m = 0
         \<longleftrightarrow> (\<forall>r \<in> set (read_value m X_data_mean). \<forall>x \<in> set r. x = 0)
           \<and> (\<forall>r \<in> set (read_value m X_data_var). \<forall>v \<in> set r. v = 1))"
    using model by (rule impI)
  from zero nonneg one form model' show ?thesis
    by (intro conjI)
qed

theorem kl_term_zero_iff_standard_normal_witness:
  "same_shape [[0, 0]] [[1, 1]] \<and> positive_matrix [[1, 1]]
   \<and> kl_term [[0, 0]] [[1, 1]] = 0
   \<and> same_shape [[3, 0]] [[1, 1]] \<and> kl_term [[3, 0]] [[1, 1]] \<noteq> 0"
proof -
  have s0: "same_shape [[0, 0]] [[1, 1]]" and s3: "same_shape [[3, 0]] [[1, 1]]"
    by (simp_all add: same_shape_def)
  have p: "positive_matrix [[1, 1]]"
    by (simp add: positive_matrix_def)
  from kl_term_zero_iff_standard_normal [OF s0 p]
  have "kl_term [[0, 0]] [[1, 1]] = 0
      \<longleftrightarrow> (\<forall>r \<in> set [[0, 0 :: real]]. \<forall>x \<in> set r. x = 0) \<and> (\<forall>r \<in> set [[1, 1 :: real]]. \<forall>v \<in> set r. v = 1)"
    by (rule conjunct1)
  then have z: "kl_term [[0, 0]] [[1, 1]] = 0"
    by simp
  from kl_term_zero_iff_standard_normal [OF s3 p]
  have "kl_term [[3, 0]] [[1, 1]] = 0
      \<longleftrightarrow> (\<forall>r \<in> set [[3, 0 :: real]]. \<forall>x \<in> set r. x = 0) \<and> (\<forall>r \<in> set [[1, 1 :: real]]. \<forall>v \<in> set r. v = 1)"
    by (rule conjunct1)
  then have n: "kl_term [[3, 0]] [[1, 1]] \<noteq> 0"
    by simp
  from s0 p z s3 n show ?thesis
    by (intro conjI)
qed

subsection \<open>The kernel matrix\<close>

text \<open>
  The exponential of an inner product is a positive semi-definite kernel: by induction on
  the number of dimensions, expanding the exponential of the last dimension's product as
  its power series, each term of which is a quadratic form of the remaining dimensions
  at rescaled coefficients.
\<close>

lemma exp_inner_product_psd:
  fixes a :: "nat \<Rightarrow> nat \<Rightarrow> real" and c :: "nat \<Rightarrow> real"
  shows "0 \<le> (\<Sum>i<n. \<Sum>j<n. c i * c j * exp (\<Sum>q<Q. a q i * a q j))"
proof (induction Q arbitrary: c)
  case 0
  have "(\<Sum>i<n. \<Sum>j<n. c i * c j) = (\<Sum>i<n. c i) * (\<Sum>j<n. c j)"
    by (simp add: sum_product)
  also have "\<dots> = (\<Sum>i<n. c i)\<^sup>2"
    by (simp add: power2_eq_square)
  finally show ?case
    by simp
next
  case (Suc Q)
  let ?E = "\<lambda>i j. exp (\<Sum>q<Q. a q i * a q j)"
  let ?t = "\<lambda>k i j. c i * c j * ?E i j * ((a Q i * a Q j) ^ k /\<^sub>R fact k)"
  have series: "(\<lambda>k. ?t k i j) sums (c i * c j * ?E i j * exp (a Q i * a Q j))" for i j
    by (rule sums_mult [OF exp_converges])
  have total: "(\<lambda>k. \<Sum>i<n. \<Sum>j<n. ?t k i j)
      sums (\<Sum>i<n. \<Sum>j<n. c i * c j * ?E i j * exp (a Q i * a Q j))"
    by (intro sums_sum series)
  have nonneg: "0 \<le> (\<Sum>i<n. \<Sum>j<n. ?t k i j)" for k
  proof -
    have pointwise: "?t k i j
        = inverse (fact k) * ((c i * a Q i ^ k) * (c j * a Q j ^ k) * ?E i j)" for i j
      by (simp add: power_mult_distrib)
    have "(\<Sum>i<n. \<Sum>j<n. ?t k i j)
        = inverse (fact k) * (\<Sum>i<n. \<Sum>j<n. (c i * a Q i ^ k) * (c j * a Q j ^ k) * ?E i j)"
      by (simp only: pointwise sum_distrib_left)
    moreover have "0 \<le> (\<Sum>i<n. \<Sum>j<n. (c i * a Q i ^ k) * (c j * a Q j ^ k) * ?E i j)"
      by (rule Suc.IH)
    ultimately show ?thesis
      by simp
  qed
  have "0 \<le> (\<Sum>i<n. \<Sum>j<n. c i * c j * ?E i j * exp (a Q i * a Q j))"
    using nonneg sums_zero total by (rule sums_le)
  then show ?case
    by (simp add: exp_add mult.assoc)
qed

lemma scaled_square_dist_sum:
  assumes "length x = length ls" and "length y = length ls"
  shows "scaled_square_dist ls x y = (\<Sum>q<length ls. ((x ! q - y ! q) / ls ! q)\<^sup>2)"
proof -
  let ?terms = "map (\<lambda>(l, a, b). ((a - b) / l)\<^sup>2) (zip ls (zip x y))"
  have "scaled_square_dist ls x y = (\<Sum>q = 0..<length ls. ?terms ! q)"
    using assms by (simp add: scaled_square_dist_def sum_list_sum_nth)
  also have "\<dots> = (\<Sum>q = 0..<length ls. ((x ! q - y ! q) / ls ! q)\<^sup>2)"
    using assms by (intro sum.cong) simp_all
  finally show ?thesis
    by (simp add: atLeast0LessThan)
qed

lemma K_factors:
  assumes "length x = length (lengthscale k)" and "length y = length (lengthscale k)"
  shows "K k x y = variance k *
      (exp (- (\<Sum>q<length (lengthscale k). (x ! q / lengthscale k ! q)\<^sup>2) / 2)
       * exp (- (\<Sum>q<length (lengthscale k). (y ! q / lengthscale k ! q)\<^sup>2) / 2)
       * exp (\<Sum>q<length (lengthscale k).
                (x ! q / lengthscale k ! q) * (y ! q / lengthscale k ! q)))"
proof -
  let ?ls = "lengthscale k"
  let ?A = "\<Sum>q<length ?ls. (x ! q / ?ls ! q)\<^sup>2"
  let ?B = "\<Sum>q<length ?ls. (y ! q / ?ls ! q)\<^sup>2"
  let ?C = "\<Sum>q<length ?ls. (x ! q / ?ls ! q) * (y ! q / ?ls ! q)"
  have "(\<Sum>q<length ?ls. ((x ! q - y ! q) / ?ls ! q)\<^sup>2) = ?A + ?B - 2 * ?C"
    by (simp add: diff_divide_distrib power2_diff sum.distrib sum_subtractf sum_distrib_left
        mult.assoc)
  then have "- scaled_square_dist ?ls x y / 2 = - ?A / 2 + - ?B / 2 + ?C"
    using assms by (simp add: scaled_square_dist_sum)
  then have "exp (- scaled_square_dist ?ls x y / 2) = exp (- ?A / 2) * exp (- ?B / 2) * exp ?C"
    by (simp only: exp_add)
  then show ?thesis
    by (simp only: K_def)
qed

lemma K_commute:
  assumes "length x = length (lengthscale k)" and "length y = length (lengthscale k)"
  shows "K k x y = K k y x"
proof -
  have "(\<Sum>q<length (lengthscale k). ((x ! q - y ! q) / lengthscale k ! q)\<^sup>2)
      = (\<Sum>q<length (lengthscale k). ((y ! q - x ! q) / lengthscale k ! q)\<^sup>2)"
    by (intro sum.cong refl) (simp add: power_divide power2_commute)
  then show ?thesis
    using assms by (simp add: K_def scaled_square_dist_sum)
qed

lemma kernel_matrix_nth:
  "i < length X \<Longrightarrow> j < length X \<Longrightarrow> kernel_matrix k X ! i ! j = K k (X ! i) (X ! j)"
  by (simp add: kernel_matrix_def)

lemma length_kernel_matrix: "length (kernel_matrix k X) = length X"
  by (simp add: kernel_matrix_def)

lemma quadratic_form_kernel_matrix_nonneg:
  assumes "0 \<le> variance k" and "list_all (\<lambda>x. length x = length (lengthscale k)) X"
  shows "0 \<le> quadratic_form (kernel_matrix k X) c"
proof -
  let ?ls = "lengthscale k"
  let ?z = "\<lambda>q i. X ! i ! q / ?ls ! q"
  let ?w = "\<lambda>i. exp (- (\<Sum>q<length ?ls. (?z q i)\<^sup>2) / 2)"
  let ?d = "\<lambda>i. c ! i * ?w i"
  have len: "length (X ! i) = length ?ls" if "i < length X" for i
    using assms(2) that by (simp add: list_all_length)
  have entry: "c ! i * (kernel_matrix k X ! i ! j) * c ! j
      = variance k * (?d i * ?d j * exp (\<Sum>q<length ?ls. ?z q i * ?z q j))"
    if "i < length X" and "j < length X" for i j
    using that by (simp add: kernel_matrix_nth K_factors [OF len len])
  have "quadratic_form (kernel_matrix k X) c
      = (\<Sum>i<length X. \<Sum>j<length X.
          variance k * (?d i * ?d j * exp (\<Sum>q<length ?ls. ?z q i * ?z q j)))"
    unfolding quadratic_form_def length_kernel_matrix
    by (intro sum.cong refl) (simp add: entry)
  also have "\<dots> = variance k *
      (\<Sum>i<length X. \<Sum>j<length X. ?d i * ?d j * exp (\<Sum>q<length ?ls. ?z q i * ?z q j))"
    by (simp only: sum_distrib_left)
  finally show ?thesis
    using assms(1) exp_inner_product_psd [where n = "length X" and c = ?d and Q = "length ?ls" and a = ?z] by simp
qed

lemma eigenvalue_nonneg:
  assumes psd: "0 \<le> quadratic_form A v" and eig: "eigenpair A lam v"
  shows "0 \<le> lam"
proof -
  from eig have len: "length v = length A"
    and nz: "\<exists>x \<in> set v. x \<noteq> 0"
    and rows: "\<And>i. i < length A \<Longrightarrow> (\<Sum>j<length A. A ! i ! j * v ! j) = lam * v ! i"
    by (simp_all add: eigenpair_def list_ex_iff list_all_iff)
  have "quadratic_form A v = (\<Sum>i<length A. v ! i * (\<Sum>j<length A. A ! i ! j * v ! j))"
    by (simp add: quadratic_form_def sum_distrib_left mult.assoc)
  also have "\<dots> = (\<Sum>i<length A. v ! i * (lam * v ! i))"
    by (intro sum.cong refl) (simp add: rows)
  also have "\<dots> = lam * (\<Sum>i<length A. (v ! i)\<^sup>2)"
    by (simp add: sum_distrib_left power2_eq_square mult_ac)
  finally have q: "quadratic_form A v = lam * (\<Sum>i<length A. (v ! i)\<^sup>2)" .
  from nz obtain i where i: "i < length A" and "v ! i \<noteq> 0"
    using len by (auto simp: in_set_conv_nth)
  then have "0 < (v ! i)\<^sup>2"
    by simp
  moreover have "(v ! i)\<^sup>2 \<le> (\<Sum>i<length A. (v ! i)\<^sup>2)"
    using i by (intro member_le_sum) simp_all
  ultimately have "0 < (\<Sum>i<length A. (v ! i)\<^sup>2)"
    by linarith
  with psd q show ?thesis
    by (simp add: zero_le_mult_iff)
qed

text \<open>
  Claim C5. For a valid kernel and a batch of latent vectors that have one coordinate
  for each length scale, the kernel matrix of the batch against itself is a square
  matrix of the batch's size, it is symmetric, and it is positive semi-definite: its
  quadratic form is non-negative at every vector of coefficients, so every eigenvalue of
  the matrix is non-negative. The values are real numbers.
\<close>

theorem kernel_matrix_symmetric_psd:
  assumes "valid_kernel k" and "list_all (\<lambda>x. length x = length (lengthscale k)) X"
  shows "length (kernel_matrix k X) = length X
       \<and> list_all (\<lambda>row. length row = length X) (kernel_matrix k X)
       \<and> (\<forall>i<length X. \<forall>j<length X. kernel_matrix k X ! i ! j = kernel_matrix k X ! j ! i)
       \<and> (\<forall>c. 0 \<le> quadratic_form (kernel_matrix k X) c)
       \<and> (\<forall>lam v. eigenpair (kernel_matrix k X) lam v \<longrightarrow> 0 \<le> lam)"
proof -
  have square: "list_all (\<lambda>row. length row = length X) (kernel_matrix k X)"
    by (simp add: kernel_matrix_def list_all_iff)
  have len: "length (X ! i) = length (lengthscale k)" if "i < length X" for i
    using assms(2) that by (simp add: list_all_length)
  have sym: "\<forall>i<length X. \<forall>j<length X. kernel_matrix k X ! i ! j = kernel_matrix k X ! j ! i"
    by (simp add: kernel_matrix_nth K_commute [OF len len])
  have "0 \<le> variance k"
    using assms(1) by (simp add: valid_kernel_def)
  then have psd: "\<forall>c. 0 \<le> quadratic_form (kernel_matrix k X) c"
    using assms(2) by (simp add: quadratic_form_kernel_matrix_nonneg)
  then have eig: "\<forall>lam v. eigenpair (kernel_matrix k X) lam v \<longrightarrow> 0 \<le> lam"
    using eigenvalue_nonneg by blast
  from length_kernel_matrix square sym psd eig show ?thesis
    by (intro conjI)
qed

theorem kernel_matrix_symmetric_psd_witness:
  "valid_kernel (RBF 1 lengthscale_init)
   \<and> list_all (\<lambda>x. length x = length (lengthscale (RBF 1 lengthscale_init)))
        ([[0, 0], [1, 0]] :: matrix)
   \<and> kernel_matrix (RBF 1 lengthscale_init) [[0, 0], [1, 0]]
       = [[1, exp (- (1 / 2))], [exp (- (1 / 2)), 1]]
   \<and> 0 \<le> quadratic_form (kernel_matrix (RBF 1 lengthscale_init) [[0, 0], [1, 0]]) [1, - 1]"
proof -
  let ?k = "RBF 1 lengthscale_init"
  let ?X = "[[0, 0], [1, 0]] :: matrix"
  have ls: "lengthscale_init = [1, 1]"
    by (simp add: lengthscale_init_def latent_dim_def numeral_2_eq_2)
  have v: "valid_kernel ?k"
    by (simp add: valid_kernel_def RBF_def ls)
  have s: "list_all (\<lambda>x. length x = length (lengthscale ?k)) ?X"
    by (simp add: RBF_def ls)
  have m: "kernel_matrix ?k ?X = [[1, exp (- (1 / 2))], [exp (- (1 / 2)), 1]]"
    by (simp add: kernel_matrix_def K_def scaled_square_dist_def RBF_def ls)
  from kernel_matrix_symmetric_psd [OF v s]
  have "\<forall>c. 0 \<le> quadratic_form (kernel_matrix ?k ?X) c"
    by (rule conjunct2 [THEN conjunct2, THEN conjunct2, THEN conjunct1])
  then have q: "0 \<le> quadratic_form (kernel_matrix ?k ?X) [1, - 1]"
    by (rule spec)
  from v s m q show ?thesis
    by (intro conjI)
qed

end
